theory Spec2Isabelle
  imports Main
begin

section \<open>Python values\<close>

text \<open>
  The values that travel through \<open>server.py\<close>: the entries of the \<open>params\<close> dictionary
  (\<open>None\<close>, strings, integers) and whatever \<open>response.json()\<close> decodes. A dictionary is an
  association list, in insertion order as in Python. The server never looks inside a
  float, so the type of floats is a parameter.
\<close>

datatype 'f pyobj =
    PyNone
  | PyBool bool
  | PyInt int
  | PyFloat 'f
  | PyStr string
  | PyList "'f pyobj list"
  | PyDict "(string \<times> 'f pyobj) list"

text \<open>Truth value of an optional string, as in \<open>if api_key:\<close> and \<open>not SERVER_ADDRESS\<close>:
  \<open>None\<close> and the empty string are false.\<close>

fun truthy :: "string option \<Rightarrow> bool" where
  "truthy None = False"
| "truthy (Some s) = (s \<noteq> [])"

text \<open>\<open>a or b\<close> on optional strings.\<close>

definition py_or :: "string option \<Rightarrow> string option \<Rightarrow> string option" where
  "py_or a b = (if truthy a then a else b)"

text \<open>\<open>str.lower()\<close> and \<open>str.upper()\<close> on the ASCII letters (every other character is
  kept; no character outside ASCII has a letter of \<open>true\<close> as its lower case).\<close>

definition lower_char :: "char \<Rightarrow> char" where
  "lower_char c =
     (let n = (of_char c :: nat) in if 65 \<le> n \<and> n \<le> 90 then char_of (n + 32) else c)"

definition upper_char :: "char \<Rightarrow> char" where
  "upper_char c =
     (let n = (of_char c :: nat) in if 97 \<le> n \<and> n \<le> 122 then char_of (n - 32) else c)"

definition lower :: "string \<Rightarrow> string" where
  "lower s = map lower_char s"

definition upper :: "string \<Rightarrow> string" where
  "upper s = map upper_char s"

text \<open>\<open>str(n)\<close> for an integer: decimal digits, a minus sign for a negative one.\<close>

fun str_nat :: "nat \<Rightarrow> string" where
  "str_nat n =
     (if n < 10 then [''0123456789'' ! n]
      else str_nat (n div 10) @ [''0123456789'' ! (n mod 10)])"

declare str_nat.simps [simp del]

definition str_int :: "int \<Rightarrow> string" where
  "str_int i = (if i < 0 then CHR ''-'' # str_nat (nat (- i)) else str_nat (nat i))"

section \<open>Exceptions\<close>

text \<open>
  Every exception raised by the calls of \<open>server.py\<close> is an instance of \<open>Exception\<close>
  with a message; \<open>str(e)\<close> is that message.
\<close>

datatype exn_class =
    ValueError
  | ConnectionError
  | Timeout
  | TooManyRedirects
  | HTTPError
  | JSONDecodeError
  | OtherException string

datatype exn = Exception exn_class string

fun str_exn :: "exn \<Rightarrow> string" where
  "str_exn (Exception c m) = m"

section \<open>The \<open>requests\<close> library and the upstream API\<close>

text \<open>
  \<open>requests.get(url, params=..., headers=..., timeout=...)\<close> sends one GET request. The
  request is recorded as the arguments of that call.
\<close>

record 'f http_request =
  http_method :: string
  url :: string
  params :: "(string \<times> 'f pyobj) list"
  headers :: "(string \<times> string) list"
  timeout :: int

text \<open>
  A response, as far as the server reads it: the status line, the final URL, and what
  \<open>response.json()\<close> does on the body (the decoded value, or the exception raised for a
  body that is not valid JSON).
\<close>

record 'f http_response =
  status_code :: int
  reason :: string
  response_url :: string
  json_result :: "exn + 'f pyobj"

text \<open>The call either raises (no connection, timeout after the 30 seconds given, ...)
  or returns a response.\<close>

datatype 'f http_outcome =
    Raises exn
  | Returns "'f http_response"

text \<open>
  The world outside the process: the requests sent so far, oldest first, and the
  upstream's behaviour, which may depend on how many requests came before.
\<close>

record 'f world =
  sent :: "'f http_request list"
  upstream :: "nat \<Rightarrow> 'f http_request \<Rightarrow> 'f http_outcome"

definition requests_get ::
  "string \<Rightarrow> (string \<times> 'f pyobj) list \<Rightarrow> (string \<times> string) list \<Rightarrow> int \<Rightarrow> 'f world
     \<Rightarrow> 'f http_outcome \<times> 'f world" where
  "requests_get u ps hs t w =
     (let r = \<lparr>http_method = ''GET'', url = u, params = ps, headers = hs, timeout = t\<rparr>
      in (upstream w (length (sent w)) r, w\<lparr>sent := sent w @ [r]\<rparr>))"

text \<open>
  \<open>Response.raise_for_status()\<close> of \<open>requests\<close>: an \<open>HTTPError\<close> for a status from 400
  to 599, nothing for any other status.
\<close>

definition raise_for_status :: "'f http_response \<Rightarrow> exn option" where
  "raise_for_status r =
     (if 400 \<le> status_code r \<and> status_code r < 500 then
        Some (Exception HTTPError
          (str_int (status_code r) @ '' Client Error: '' @ reason r @ '' for url: '' @ response_url r))
      else if 500 \<le> status_code r \<and> status_code r < 600 then
        Some (Exception HTTPError
          (str_int (status_code r) @ '' Server Error: '' @ reason r @ '' for url: '' @ response_url r))
      else None)"

section \<open>The tool \<open>search_everything\<close>\<close>

text \<open>
  The parameters of \<open>search_everything\<close> after \<open>context\<close>, with the types of the
  signature. A string parameter whose default is \<open>None\<close> is an optional string;
  \<open>from_param\<close> is the parameter \<open>from_\<close> (a name cannot end in an underscore here).
\<close>

record arguments =
  q :: "string option"
  qInTitle :: "string option"
  sources :: "string option"
  domains :: "string option"
  excludeDomains :: "string option"
  from_param :: "string option"
  to :: "string option"
  language :: string
  sortBy :: string
  searchIn :: "string option"
  pageSize :: int
  page :: int

text \<open>The defaults of the signature: a call binds every parameter it does not pass to
  the value here.\<close>

definition search_everything_defaults :: arguments where
  "search_everything_defaults =
     \<lparr>q = None, qInTitle = None, sources = None, domains = None, excludeDomains = None,
      from_param = None, to = None, language = ''en'', sortBy = ''publishedAt'', searchIn = None,
      pageSize = 20, page = 1\<rparr>"

fun py_str_opt :: "string option \<Rightarrow> 'f pyobj" where
  "py_str_opt None = PyNone"
| "py_str_opt (Some s) = PyStr s"

text \<open>The dictionary \<open>params\<close> (lines 172 to 185).\<close>

definition search_everything_params :: "arguments \<Rightarrow> (string \<times> 'f pyobj) list" where
  "search_everything_params a =
     [(''q'', py_str_opt (q a)),
      (''qInTitle'', py_str_opt (qInTitle a)),
      (''sources'', py_str_opt (sources a)),
      (''domains'', py_str_opt (domains a)),
      (''excludeDomains'', py_str_opt (excludeDomains a)),
      (''from'', py_str_opt (from_param a)),
      (''to'', py_str_opt (to a)),
      (''language'', PyStr (language a)),
      (''sortBy'', PyStr (sortBy a)),
      (''searchIn'', py_str_opt (searchIn a)),
      (''pageSize'', PyInt (pageSize a)),
      (''page'', PyInt (page a))]"

text \<open>The dictionary \<open>headers\<close> (lines 186 to 188).\<close>

fun search_everything_headers :: "string option \<Rightarrow> (string \<times> string) list" where
  "search_everything_headers None = []"
| "search_everything_headers (Some k) =
     (if k \<noteq> [] then [(''Authorization'', ''Bearer '' @ k)] else [])"

text \<open>
  The body of the \<open>try\<close> block (lines 171 to 198): an exception raised by
  \<open>requests.get\<close>, by \<open>raise_for_status\<close> or by \<open>response.json()\<close> leaves the block.
\<close>

definition search_everything_try ::
  "string option \<Rightarrow> arguments \<Rightarrow> 'f world \<Rightarrow> (exn + 'f pyobj) \<times> 'f world" where
  "search_everything_try api_key a w =
     (case requests_get ''https://newsapi.org/v2/everything'' (search_everything_params a)
             (search_everything_headers api_key) 30 w of
        (Raises e, w') \<Rightarrow> (Inl e, w')
      | (Returns response, w') \<Rightarrow>
          (case raise_for_status response of
             Some e \<Rightarrow> (Inl e, w')
           | None \<Rightarrow> (json_result response, w')))"

text \<open>
  The tool itself. \<open>get_active_api_key\<close> is a helper of the payment library; it is a
  parameter here, a function from the context to the key to use, if any. The result is
  \<open>Inl\<close> for an exception that leaves the function and \<open>Inr\<close> for a returned value; the
  handler \<open>except Exception as e\<close> turns what left the \<open>try\<close> block into the error
  dictionary. Logging is left out throughout.
\<close>

definition search_everything ::
  "('c \<Rightarrow> string option) \<Rightarrow> 'c \<Rightarrow> arguments \<Rightarrow> 'f world \<Rightarrow> (exn + 'f pyobj) \<times> 'f world" where
  "search_everything get_active_api_key context a w =
     (let api_key = get_active_api_key context in
      case search_everything_try api_key a w of
        (Inr v, w') \<Rightarrow> (Inr v, w')
      | (Inl e, w') \<Rightarrow>
          (Inr (PyDict [(''error'', PyStr (str_exn e)), (''endpoint'', PyStr ''/everything'')]), w'))"

text \<open>The request one invocation sends, for reference in the statements below.\<close>

definition search_everything_request :: "string option \<Rightarrow> arguments \<Rightarrow> 'f http_request" where
  "search_everything_request api_key a =
     \<lparr>http_method = ''GET'', url = ''https://newsapi.org/v2/everything'',
      params = search_everything_params a, headers = search_everything_headers api_key,
      timeout = 30\<rparr>"

section \<open>The declared price and the tool registry\<close>

text \<open>
  The arguments of the decorator \<open>require_payment_for_tool\<close> (lines 98 to 113), with
  the constructors \<open>TokenAmount\<close>, \<open>TokenAsset\<close> and \<open>EIP712Domain\<close> as records.
\<close>

record eip712_domain =
  name :: string
  version :: string

record token_asset =
  address :: string
  decimals :: int
  network :: string
  eip712 :: eip712_domain

record token_amount =
  amount :: string
  asset :: token_asset

definition search_everything_price :: token_amount where
  "search_everything_price =
     \<lparr>amount = ''2000'',
      asset = \<lparr>address = ''0x1c7D4B196Cb0C7B01d743Fbc6116a902379C7238'', decimals = 6,
               network = ''sepolia'',
               eip712 = \<lparr>name = ''IATPWallet'', version = ''1''\<rparr>\<rparr>\<rparr>"

text \<open>A registered tool: \<open>mcp.tool()\<close> registers the function under its own name, with
  the price and description given to \<open>require_payment_for_tool\<close>.\<close>

record tool =
  tool_name :: string
  price :: token_amount
  description :: string

definition search_everything_tool :: tool where
  "search_everything_tool =
     \<lparr>tool_name = ''search_everything'', price = search_everything_price,
      description = ''Search through millions of articles. NewsAPI requi''\<rparr>"

record fastmcp =
  title :: string
  host :: string
  tools :: "tool list"

definition FastMCP :: "string \<Rightarrow> string \<Rightarrow> fastmcp" where
  "FastMCP t h = \<lparr>title = t, host = h, tools = []\<rparr>"

definition mcp_tool :: "tool \<Rightarrow> fastmcp \<Rightarrow> fastmcp" where
  "mcp_tool t m = m\<lparr>tools := tools m @ [t]\<rparr>"

section \<open>Module initialisation\<close>

text \<open>The environment is \<open>os.environ\<close> once \<open>load_dotenv()\<close> has run.\<close>

type_synonym environ = "string \<rightharpoonup> string"

definition getenv :: "environ \<Rightarrow> string \<Rightarrow> string option" where
  "getenv env k = env k"

definition getenv_default :: "environ \<Rightarrow> string \<Rightarrow> string \<Rightarrow> string" where
  "getenv_default env k d = (case env k of None \<Rightarrow> d | Some v \<Rightarrow> v)"

record module_globals =
  STAGE :: string
  PORT :: int
  SERVER_ADDRESS :: string
  API_KEY :: "string option"
  mcp :: fastmcp

text \<open>
  The configuration block and what follows it at module level (lines 54 to 114). The
  builtin \<open>int\<close> applied to a string is the parameter \<open>py_int\<close>: it returns the number or
  raises. \<open>Inl\<close> is the exception that ends the import; the server object \<open>mcp\<close> exists
  only in an \<open>Inr\<close> result.
\<close>

definition module_init :: "(string \<Rightarrow> exn + int) \<Rightarrow> environ \<Rightarrow> exn + module_globals" where
  "module_init py_int env =
     (case py_int (getenv_default env ''PORT'' ''8000'') of
        Inl e \<Rightarrow> Inl e
      | Inr port \<Rightarrow>
          (case getenv env ''SERVER_ADDRESS'' of
             None \<Rightarrow> Inl (Exception ValueError ''SERVER_ADDRESS required for payment protocol'')
           | Some server_address \<Rightarrow>
               if server_address = [] then
                 Inl (Exception ValueError ''SERVER_ADDRESS required for payment protocol'')
               else
                 Inr \<lparr>STAGE = upper (getenv_default env ''STAGE'' ''MAINNET''),
                      PORT = port,
                      SERVER_ADDRESS = server_address,
                      API_KEY = getenv env ''TEST_NEWSAPI_MCP_API_KEY'',
                      mcp = mcp_tool search_everything_tool
                              (FastMCP ''test-newsapi-mcp MCP Server'' ''0.0.0.0'')\<rparr>))"

section \<open>Building the application\<close>

text \<open>The two local values of \<open>create_app_with_middleware\<close> that decide whether it
  raises (lines 232 and 235).\<close>

definition facilitator_url :: "environ \<Rightarrow> string option" where
  "facilitator_url env = py_or (getenv env ''FACILITATOR_URL'') (getenv env ''D402_FACILITATOR_URL'')"

definition testing_mode :: "environ \<Rightarrow> bool" where
  "testing_mode env = (lower (getenv_default env ''D402_TESTING_MODE'' ''false'') = ''true'')"

record cors_options =
  allow_origins :: "string list"
  allow_credentials :: bool
  allow_methods :: "string list"
  allow_headers :: "string list"

record 'g d402_options =
  d402_tool_payment_configs :: 'g
  d402_server_address :: string
  d402_requires_auth :: bool
  d402_internal_api_key :: "string option"
  d402_testing_mode :: bool
  d402_facilitator_url :: "string option"
  d402_facilitator_api_key :: "string option"
  d402_server_name :: string

datatype 'g middleware =
    CORSMiddleware cors_options
  | D402PaymentMiddleware "'g d402_options"

text \<open>
  The Starlette application: the server it serves, the middleware added (Starlette's
  \<open>add_middleware\<close> puts the new entry in front), and the routes this file adds to those
  of FastMCP, each with its methods.
\<close>

record 'g starlette_app =
  serves :: fastmcp
  user_middleware :: "'g middleware list"
  added_routes :: "(string \<times> string list) list"

definition streamable_http_app :: "fastmcp \<Rightarrow> 'g starlette_app" where
  "streamable_http_app m = \<lparr>serves = m, user_middleware = [], added_routes = []\<rparr>"

definition add_middleware :: "'g middleware \<Rightarrow> 'g starlette_app \<Rightarrow> 'g starlette_app" where
  "add_middleware mw app = app\<lparr>user_middleware := mw # user_middleware app\<rparr>"

definition add_route :: "string \<Rightarrow> string list \<Rightarrow> 'g starlette_app \<Rightarrow> 'g starlette_app" where
  "add_route path ms app = app\<lparr>added_routes := added_routes app @ [(path, ms)]\<rparr>"

text \<open>
  \<open>create_app_with_middleware\<close> (lines 211 to 299). The library function
  \<open>extract_payment_configs_from_mcp\<close> is a parameter. \<open>operator_key\<close> and \<open>network\<close> are
  only logged.
\<close>

definition create_app_with_middleware ::
  "(fastmcp \<Rightarrow> string \<Rightarrow> 'g) \<Rightarrow> module_globals \<Rightarrow> environ \<Rightarrow> exn + 'g starlette_app" where
  "create_app_with_middleware extract_payment_configs_from_mcp g env =
     (let app = streamable_http_app (mcp g);
          configs = extract_payment_configs_from_mcp (mcp g) (SERVER_ADDRESS g)
      in
        if \<not> truthy (facilitator_url env) \<and> \<not> testing_mode env then
          Inl (Exception ValueError ''Set FACILITATOR_URL or enable D402_TESTING_MODE=true'')
        else
          Inr (add_route ''/health'' [''GET'']
                (add_middleware
                  (D402PaymentMiddleware
                    \<lparr>d402_tool_payment_configs = configs,
                     d402_server_address = SERVER_ADDRESS g,
                     d402_requires_auth = True,
                     d402_internal_api_key = API_KEY g,
                     d402_testing_mode = testing_mode env,
                     d402_facilitator_url = facilitator_url env,
                     d402_facilitator_api_key = getenv env ''D402_FACILITATOR_API_KEY'',
                     d402_server_name = ''test-newsapi-mcp-mcp-server''\<rparr>)
                  (add_middleware
                    (CORSMiddleware
                      \<lparr>allow_origins = [''*''], allow_credentials = True,
                       allow_methods = [''*''], allow_headers = [''*'']\<rparr>)
                    app))))"

text \<open>
  The handler of \<open>/health\<close> (lines 287 to 296). It does not read its request. The second
  argument is the value of \<open>datetime.now().isoformat()\<close> at the call.
\<close>

datatype 'f json_response = JSONResponse (content: "'f pyobj")

definition health_check :: "'r \<Rightarrow> string \<Rightarrow> 'f json_response" where
  "health_check request now_isoformat =
     JSONResponse (PyDict [(''status'', PyStr ''healthy''),
                           (''service'', PyStr ''test-newsapi-mcp-mcp-server''),
                           (''timestamp'', PyStr now_isoformat)])"

text \<open>
  Starting the process: the import of the module, then the \<open>__main__\<close> block (lines 301
  to 321), which builds the application and hands it to \<open>uvicorn.run\<close>. A running server
  exists only in an \<open>Inr\<close> result.
\<close>

record 'g running_server =
  run_app :: "'g starlette_app"
  run_host :: string
  run_port :: int

definition main ::
  "(string \<Rightarrow> exn + int) \<Rightarrow> (fastmcp \<Rightarrow> string \<Rightarrow> 'g) \<Rightarrow> environ \<Rightarrow> exn + 'g running_server" where
  "main py_int extract_payment_configs_from_mcp env =
     (case module_init py_int env of
        Inl e \<Rightarrow> Inl e
      | Inr g \<Rightarrow>
          (case create_app_with_middleware extract_payment_configs_from_mcp g env of
             Inl e \<Rightarrow> Inl e
           | Inr app \<Rightarrow> Inr \<lparr>run_app = app, run_host = ''0.0.0.0'', run_port = PORT g\<rparr>))"

section \<open>The payment gate and the gateway shell\<close>

text \<open>
  Modelled from the spec: CallRequest and PaymentDecision of the data model (section 3).
  The gate in front of the tool is \<open>D402PaymentMiddleware\<close> of the payment library,
  which \<open>server.py\<close> configures and does not contain. A call carries a tool name, the
  parameters, and the caller's credential: an API key, a payment proof, both or neither.
\<close>

record 'p call_request =
  call_tool :: string
  call_parameters :: arguments
  call_api_key :: "string option"
  call_payment_proof :: "'p option"

datatype admit_reason = By_api_key | By_verified_payment

datatype payment_decision =
    Admitted admit_reason
  | Rejected token_amount

text \<open>
  Modelled from the spec: the Payment Gate's \<open>evaluate\<close> (section 4.2), which in the
  running server is \<open>D402PaymentMiddleware\<close>, absent from the sources. A call whose key is
  the server's own key is admitted; else a call whose payment proof the verification
  collaborator accepts for the tool's declared price is admitted; else the call is
  rejected with the tool's declared price. A verification error counts as \<open>False\<close>.
\<close>

definition evaluate ::
  "('p \<Rightarrow> token_amount \<Rightarrow> bool) \<Rightarrow> string option \<Rightarrow> tool \<Rightarrow> 'p call_request \<Rightarrow> payment_decision" where
  "evaluate verify internal_api_key d c =
     (if call_api_key c \<noteq> None \<and> call_api_key c = internal_api_key then Admitted By_api_key
      else
        (case call_payment_proof c of
           None \<Rightarrow> Rejected (price d)
         | Some pf \<Rightarrow>
             if verify pf (price d) then Admitted By_verified_payment
             else Rejected (price d)))"

text \<open>
  Modelled from the spec: the Tool Registry's \<open>lookup\<close> (section 4.1), a search of the
  tools registered with \<open>mcp\<close> by name; the registry itself is FastMCP's, absent from
  the sources.
\<close>

definition lookup :: "fastmcp \<Rightarrow> string \<Rightarrow> tool option" where
  "lookup m n = find (\<lambda>t. tool_name t = n) (tools m)"

text \<open>Modelled from the spec: the collaborators of the shell that the libraries provide
  (sections 4.2 and 9), absent from the sources: the verification of a payment proof,
  the context handed to the tool for an admitted call, and \<open>get_active_api_key\<close>.\<close>

record ('p, 'c) collaborators =
  verify_payment :: "'p \<Rightarrow> token_amount \<Rightarrow> bool"
  make_context :: "'p call_request \<Rightarrow> admit_reason \<Rightarrow> 'c"
  active_api_key :: "'c \<Rightarrow> string option"

text \<open>Modelled from the spec: the inbound interface (section 6). A request is a call of
  a tool, or a GET of the liveness route \<open>/health\<close> with whatever key and payment proof
  the caller chose to send.\<close>

datatype 'p inbound =
    Tool_call "'p call_request"
  | Liveness_call "string option" "'p option"

text \<open>Modelled from the spec: the answers of the shell (section 6). \<open>Payment_required\<close>
  is the HTTP 402 response, carrying the required price.\<close>

datatype 'f answer =
    Payment_required token_amount
  | Tool_result "exn + 'f pyobj"
  | Liveness_result "'f json_response"
  | Tool_not_found

text \<open>
  Modelled from the spec: the Gateway Shell (sections 2 and 4.4), which in the running
  server is the Starlette application with its middleware, absent from the sources. The
  liveness route goes to \<open>health_check\<close> without passing the gate; a tool call is looked
  up, passes the gate, and an admitted call is handed to \<open>search_everything\<close>, the one
  handler there is.
\<close>

definition gateway_shell ::
  "('p, 'c) collaborators \<Rightarrow> module_globals \<Rightarrow> string \<Rightarrow> 'p inbound \<Rightarrow> 'f world
     \<Rightarrow> 'f answer \<times> 'f world" where
  "gateway_shell col g now_isoformat i w =
     (case i of
        Liveness_call k p \<Rightarrow> (Liveness_result (health_check (k, p) now_isoformat), w)
      | Tool_call c \<Rightarrow>
          (case lookup (mcp g) (call_tool c) of
             None \<Rightarrow> (Tool_not_found, w)
           | Some d \<Rightarrow>
               (case evaluate (verify_payment col) (API_KEY g) d c of
                  Rejected pr \<Rightarrow> (Payment_required pr, w)
                | Admitted r \<Rightarrow>
                    (case search_everything (active_api_key col) (make_context col c r)
                            (call_parameters c) w of
                       (res, w') \<Rightarrow> (Tool_result res, w')))))"

section \<open>Concrete scenarios\<close>

text \<open>Upstream behaviours, contexts and environments at which the statements below are
  evaluated.\<close>

definition example_articles :: "unit pyobj" where
  "example_articles =
     PyDict [(''status'', PyStr ''ok''), (''totalResults'', PyInt 0), (''articles'', PyList [])]"

definition upstream_ok :: "nat \<Rightarrow> unit http_request \<Rightarrow> unit http_outcome" where
  "upstream_ok n r =
     Returns \<lparr>status_code = 200, reason = ''OK'', response_url = url r,
              json_result = Inr example_articles\<rparr>"

definition upstream_refused :: "nat \<Rightarrow> unit http_request \<Rightarrow> unit http_outcome" where
  "upstream_refused n r = Raises (Exception ConnectionError ''Connection refused'')"

definition upstream_unauthorized :: "nat \<Rightarrow> unit http_request \<Rightarrow> unit http_outcome" where
  "upstream_unauthorized n r =
     Returns \<lparr>status_code = 401, reason = ''Unauthorized'', response_url = url r,
              json_result = Inr (PyDict [(''status'', PyStr ''error'')])\<rparr>"

definition upstream_html :: "nat \<Rightarrow> unit http_request \<Rightarrow> unit http_outcome" where
  "upstream_html n r =
     Returns \<lparr>status_code = 200, reason = ''OK'', response_url = url r,
              json_result = Inl (Exception JSONDecodeError
                ''Expecting value: line 1 column 1 (char 0)'')\<rparr>"

definition fresh_world :: "(nat \<Rightarrow> unit http_request \<Rightarrow> unit http_outcome) \<Rightarrow> unit world" where
  "fresh_world up = \<lparr>sent = [], upstream = up\<rparr>"

text \<open>A context that is just the key to use, and the helper that reads it.\<close>

definition key_of_context :: "string option \<Rightarrow> string option" where
  "key_of_context c = c"

definition no_arguments :: arguments where
  "no_arguments = search_everything_defaults"

definition search_ai :: arguments where
  "search_ai = search_everything_defaults\<lparr>q := Some ''ai''\<rparr>"

text \<open>Environments, a stand-in for \<open>int\<close> on the two port strings used, and a stand-in
  for the extraction of the payment configurations.\<close>

definition env_empty :: environ where
  "env_empty = Map.empty"

definition env_testing_upper :: environ where
  "env_testing_upper = [''SERVER_ADDRESS'' \<mapsto> ''0xA11CE'', ''D402_TESTING_MODE'' \<mapsto> ''TRUE'']"

definition env_with_key :: environ where
  "env_with_key =
     [''SERVER_ADDRESS'' \<mapsto> ''0xA11CE'', ''TEST_NEWSAPI_MCP_API_KEY'' \<mapsto> ''secret'']"

definition int_of_port :: "string \<Rightarrow> exn + int" where
  "int_of_port s =
     (if s = ''8000'' then Inr 8000
      else Inl (Exception ValueError ''invalid literal for int() with base 10''))"

definition configs_of :: "fastmcp \<Rightarrow> string \<Rightarrow> (string \<times> token_amount \<times> string) list" where
  "configs_of m pay_to = map (\<lambda>t. (tool_name t, price t, pay_to)) (tools m)"

definition globals_example :: module_globals where
  "globals_example =
     \<lparr>STAGE = ''MAINNET'', PORT = 8000, SERVER_ADDRESS = ''0xA11CE'', API_KEY = Some ''secret'',
      mcp = mcp_tool search_everything_tool (FastMCP ''test-newsapi-mcp MCP Server'' ''0.0.0.0'')\<rparr>"

definition collaborators_example :: "(string, string option) collaborators" where
  "collaborators_example =
     \<lparr>verify_payment = (\<lambda>pf pr. pf = ''paid:'' @ amount pr),
      make_context = (\<lambda>c r. if r = By_api_key then call_api_key c else Some ''secret''),
      active_api_key = key_of_context\<rparr>"

definition call_without_credential :: "string call_request" where
  "call_without_credential =
     \<lparr>call_tool = ''search_everything'', call_parameters = search_ai,
      call_api_key = None, call_payment_proof = None\<rparr>"

definition call_with_forged_proof :: "string call_request" where
  "call_with_forged_proof =
     \<lparr>call_tool = ''search_everything'', call_parameters = search_ai,
      call_api_key = None, call_payment_proof = Some ''forged''\<rparr>"

section \<open>Properties of \<open>search_everything\<close>\<close>

lemma search_everything_sent:
  "sent (snd (search_everything g c a w)) = sent w @ [search_everything_request (g c) a]"
  by (simp add: search_everything_def search_everything_try_def requests_get_def
      search_everything_request_def Let_def split: http_outcome.split option.split sum.split)

text \<open>The value returned, by cases on what the upstream does with the one request.\<close>

lemma search_everything_result:
  "fst (search_everything g c a w) =
     (case upstream w (length (sent w)) (search_everything_request (g c) a) of
        Raises e \<Rightarrow>
          Inr (PyDict [(''error'', PyStr (str_exn e)), (''endpoint'', PyStr ''/everything'')])
      | Returns r \<Rightarrow>
          (case raise_for_status r of
             Some e \<Rightarrow>
               Inr (PyDict [(''error'', PyStr (str_exn e)), (''endpoint'', PyStr ''/everything'')])
           | None \<Rightarrow>
               (case json_result r of
                  Inl e \<Rightarrow>
                    Inr (PyDict [(''error'', PyStr (str_exn e)),
                                 (''endpoint'', PyStr ''/everything'')])
                | Inr v \<Rightarrow> Inr v)))"
  by (simp add: search_everything_def search_everything_try_def requests_get_def
      search_everything_request_def Let_def split: http_outcome.split option.split sum.split)

lemma raise_for_status_error:
  "400 \<le> status_code r \<Longrightarrow> status_code r < 600
     \<Longrightarrow> \<exists>m. raise_for_status r = Some (Exception HTTPError m)"
  by (simp add: raise_for_status_def)

lemma raise_for_status_success:
  "200 \<le> status_code r \<Longrightarrow> status_code r < 300 \<Longrightarrow> raise_for_status r = None"
  by (simp add: raise_for_status_def)

lemma fresh_world_simps:
  "sent (fresh_world up) = []" "upstream (fresh_world up) = up"
  by (simp_all add: fresh_world_def)

lemma search_ai_params:
  "search_everything_params search_ai =
     [(''q'', PyStr ''ai''), (''qInTitle'', PyNone), (''sources'', PyNone), (''domains'', PyNone),
      (''excludeDomains'', PyNone), (''from'', PyNone), (''to'', PyNone),
      (''language'', PyStr ''en''), (''sortBy'', PyStr ''publishedAt''), (''searchIn'', PyNone),
      (''pageSize'', PyInt 20), (''page'', PyInt 1)]"
  by (simp add: search_everything_params_def search_ai_def search_everything_defaults_def)

text \<open>
  Claim C1, as the code has it. \<open>search_everything\<close> has no required parameter and checks
  none: a call that gives none of \<open>q\<close>, \<open>sources\<close> and \<open>domains\<close> is not rejected before
  the outbound call. It sends its one GET request, in which the three parameters are
  \<open>None\<close>.
\<close>

theorem search_everything_forwards_without_required:
  "q a = None \<and> sources a = None \<and> domains a = None \<Longrightarrow>
     sent (snd (search_everything g c a (w :: 'f world)))
       = sent w @ [search_everything_request (g c) a] \<and>
     map_of (params (search_everything_request (g c) a :: 'f http_request)) ''q''
       = Some PyNone \<and>
     map_of (params (search_everything_request (g c) a :: 'f http_request)) ''sources''
       = Some PyNone \<and>
     map_of (params (search_everything_request (g c) a :: 'f http_request)) ''domains''
       = Some PyNone"
  by (simp add: search_everything_sent search_everything_request_def search_everything_params_def)

theorem search_everything_forwards_without_required_witness:
  "q no_arguments = None \<and> sources no_arguments = None \<and> domains no_arguments = None \<and>
   sent (snd (search_everything key_of_context None no_arguments (fresh_world upstream_refused)))
     = [search_everything_request None no_arguments]"
  using search_everything_forwards_without_required
    [of no_arguments key_of_context None "fresh_world upstream_refused"]
  by (simp add: fresh_world_simps no_arguments_def search_everything_defaults_def
      key_of_context_def)

text \<open>
  Claim C1, as the specification states it, fails: called with the defaults alone (none
  of \<open>q\<close>, \<open>sources\<close>, \<open>domains\<close>) in a world where nothing was sent before,
  \<open>search_everything\<close> leaves one request sent.
\<close>

theorem search_everything_no_required_check_counterexample:
  "q no_arguments = None \<and> sources no_arguments = None \<and> domains no_arguments = None \<and>
   sent (fresh_world upstream_ok) = [] \<and>
   length (sent (snd (search_everything key_of_context None no_arguments
                        (fresh_world upstream_ok)))) = 1"
  by (simp add: search_everything_sent fresh_world_simps no_arguments_def
      search_everything_defaults_def)

text \<open>
  Claim C2. \<open>search_everything\<close> always returns a value and never lets an exception out.
  When \<open>requests.get\<close> raises (transport failure, timeout), the value is the error
  dictionary with the exception's message; when the response has a status that
  \<open>raise_for_status\<close> rejects (400 to 599), the value is the error dictionary with some
  message.
\<close>

theorem search_everything_failure_is_data:
  "(\<exists>v. fst (search_everything g c a w) = Inr v) \<and>
   (upstream w (length (sent w)) (search_everything_request (g c) a) = Raises e \<longrightarrow>
      fst (search_everything g c a w)
        = Inr (PyDict [(''error'', PyStr (str_exn e)), (''endpoint'', PyStr ''/everything'')])) \<and>
   (upstream w (length (sent w)) (search_everything_request (g c) a) = Returns r \<and>
    400 \<le> status_code r \<and> status_code r < 600 \<longrightarrow>
      (\<exists>m. fst (search_everything g c a w)
        = Inr (PyDict [(''error'', PyStr m), (''endpoint'', PyStr ''/everything'')])))"
proof (intro conjI impI)
  show "\<exists>v. fst (search_everything g c a w) = Inr v"
    by (simp add: search_everything_result split: http_outcome.split option.split sum.split)
next
  assume "upstream w (length (sent w)) (search_everything_request (g c) a) = Raises e"
  then show "fst (search_everything g c a w)
        = Inr (PyDict [(''error'', PyStr (str_exn e)), (''endpoint'', PyStr ''/everything'')])"
    by (simp add: search_everything_result)
next
  assume h: "upstream w (length (sent w)) (search_everything_request (g c) a) = Returns r \<and>
    400 \<le> status_code r \<and> status_code r < 600"
  then obtain m where "raise_for_status r = Some (Exception HTTPError m)"
    using raise_for_status_error by blast
  with h show "\<exists>m. fst (search_everything g c a w)
        = Inr (PyDict [(''error'', PyStr m), (''endpoint'', PyStr ''/everything'')])"
    by (simp add: search_everything_result)
qed

theorem search_everything_failure_is_data_witness:
  "upstream (fresh_world upstream_refused) (length (sent (fresh_world upstream_refused)))
      (search_everything_request (key_of_context None) search_ai)
     = Raises (Exception ConnectionError ''Connection refused'') \<and>
   fst (search_everything key_of_context None search_ai (fresh_world upstream_refused))
     = Inr (PyDict [(''error'', PyStr ''Connection refused''),
                    (''endpoint'', PyStr ''/everything'')]) \<and>
   upstream (fresh_world upstream_unauthorized) (length (sent (fresh_world upstream_unauthorized)))
      (search_everything_request (key_of_context None) search_ai)
     = Returns \<lparr>status_code = 401, reason = ''Unauthorized'',
                response_url = ''https://newsapi.org/v2/everything'',
                json_result = Inr (PyDict [(''status'', PyStr ''error'')])\<rparr> \<and>
   (\<exists>m. fst (search_everything key_of_context None search_ai (fresh_world upstream_unauthorized))
     = Inr (PyDict [(''error'', PyStr m), (''endpoint'', PyStr ''/everything'')]))"
  using search_everything_failure_is_data
    [of key_of_context None search_ai "fresh_world upstream_refused"
        "Exception ConnectionError ''Connection refused''"]
    search_everything_failure_is_data
    [of key_of_context None search_ai "fresh_world upstream_unauthorized" _
        "\<lparr>status_code = 401, reason = ''Unauthorized'',
          response_url = ''https://newsapi.org/v2/everything'',
          json_result = Inr (PyDict [(''status'', PyStr ''error'')])\<rparr>"]
  by (simp add: fresh_world_simps upstream_refused_def upstream_unauthorized_def
      search_everything_request_def)

text \<open>
  Claim C3. Called with \<open>q = "ai"\<close>, everything else at its default, and a key to use,
  \<open>search_everything\<close> sends exactly one request: a GET of the \<open>/everything\<close> URL whose
  parameters are \<open>q = ai\<close>, \<open>language = en\<close>, \<open>pageSize = 20\<close>, \<open>page = 1\<close> and the other
  defaults, with the key as bearer token. When the upstream answers with a 2xx status and
  a JSON body, that decoded body is the value returned, unchanged.
\<close>

theorem search_ai_one_get_and_passthrough:
  "g c = Some k \<and> k \<noteq> [] \<Longrightarrow>
     sent (snd (search_everything g c search_ai w))
       = sent w @
           [\<lparr>http_method = ''GET'', url = ''https://newsapi.org/v2/everything'',
             params =
               [(''q'', PyStr ''ai''), (''qInTitle'', PyNone), (''sources'', PyNone),
                (''domains'', PyNone), (''excludeDomains'', PyNone), (''from'', PyNone),
                (''to'', PyNone), (''language'', PyStr ''en''),
                (''sortBy'', PyStr ''publishedAt''), (''searchIn'', PyNone),
                (''pageSize'', PyInt 20), (''page'', PyInt 1)],
             headers = [(''Authorization'', ''Bearer '' @ k)], timeout = 30\<rparr>] \<and>
     (upstream w (length (sent w)) (search_everything_request (Some k) search_ai) = Returns resp \<and>
      200 \<le> status_code resp \<and> status_code resp < 300 \<and> json_result resp = Inr j \<longrightarrow>
        fst (search_everything g c search_ai w) = Inr j)"
  by (simp add: search_everything_sent search_everything_result search_everything_request_def
      search_ai_params raise_for_status_success)

theorem search_ai_one_get_and_passthrough_witness:
  "key_of_context (Some ''secret'') = Some ''secret'' \<and> ''secret'' \<noteq> [] \<and>
   length (sent (snd (search_everything key_of_context (Some ''secret'') search_ai
                        (fresh_world upstream_ok)))) = 1 \<and>
   fst (search_everything key_of_context (Some ''secret'') search_ai (fresh_world upstream_ok))
     = Inr example_articles"
  using search_ai_one_get_and_passthrough
    [of key_of_context "Some ''secret''" "''secret''" "fresh_world upstream_ok"
        "\<lparr>status_code = 200, reason = ''OK'',
          response_url = ''https://newsapi.org/v2/everything'',
          json_result = Inr example_articles\<rparr>" example_articles]
  by (simp add: fresh_world_simps upstream_ok_def key_of_context_def
      search_everything_request_def)

text \<open>
  Claim C4. Every invocation of \<open>search_everything\<close> adds exactly one request to those
  sent, whatever the upstream answers (no retry after a failure). A second invocation with
  the same context and arguments, right after the first, adds its own request: nothing is
  cached or deduplicated.
\<close>

theorem search_everything_one_outbound_call:
  "sent (snd (search_everything g c a w)) = sent w @ [search_everything_request (g c) a] \<and>
   length (sent (snd (search_everything g c a w))) = length (sent w) + 1 \<and>
   sent (snd (search_everything g c a (snd (search_everything g c a w))))
     = sent w @ [search_everything_request (g c) a, search_everything_request (g c) a]"
  by (simp add: search_everything_sent)

text \<open>
  Claim C9. The request sent by \<open>search_everything\<close> carries a parameter mapping with
  exactly twelve keys. \<open>from_\<close> is under the key \<open>from\<close>, and \<open>from_\<close> is not a key; each
  other parameter is under its own name. A string parameter left at \<open>None\<close> is mapped to
  \<open>None\<close>, and the four parameters with a default are mapped to it when not given.
\<close>

theorem search_everything_params_twelve_keys:
  "params (last (sent (snd (search_everything g c a w)))) = search_everything_params a \<and>
   map fst (search_everything_params a :: (string \<times> 'f pyobj) list)
     = [''q'', ''qInTitle'', ''sources'', ''domains'', ''excludeDomains'', ''from'', ''to'',
        ''language'', ''sortBy'', ''searchIn'', ''pageSize'', ''page''] \<and>
   length (search_everything_params a :: (string \<times> 'f pyobj) list) = 12 \<and>
   distinct (map fst (search_everything_params a :: (string \<times> 'f pyobj) list)) \<and>
   map_of (search_everything_params a :: (string \<times> 'f pyobj) list) ''from''
     = Some (py_str_opt (from_param a)) \<and>
   map_of (search_everything_params a :: (string \<times> 'f pyobj) list) ''from_'' = None \<and>
   map snd (search_everything_params a :: (string \<times> 'f pyobj) list)
     = [py_str_opt (q a), py_str_opt (qInTitle a), py_str_opt (sources a),
        py_str_opt (domains a), py_str_opt (excludeDomains a), py_str_opt (from_param a),
        py_str_opt (to a), PyStr (language a), PyStr (sortBy a), py_str_opt (searchIn a),
        PyInt (pageSize a), PyInt (page a)] \<and>
   (search_everything_params search_everything_defaults :: (string \<times> 'f pyobj) list)
     = [(''q'', PyNone), (''qInTitle'', PyNone), (''sources'', PyNone), (''domains'', PyNone),
        (''excludeDomains'', PyNone), (''from'', PyNone), (''to'', PyNone),
        (''language'', PyStr ''en''), (''sortBy'', PyStr ''publishedAt''),
        (''searchIn'', PyNone), (''pageSize'', PyInt 20), (''page'', PyInt 1)]"
  by (simp add: search_everything_sent search_everything_request_def
      search_everything_params_def search_everything_defaults_def)

text \<open>
  Claim C10. Whenever an exception is raised inside \<open>search_everything\<close> (by
  \<open>requests.get\<close>, by \<open>raise_for_status\<close>, or by \<open>response.json()\<close> on a response with a
  success status whose body is not valid JSON), the function returns the dictionary with
  exactly the keys \<open>error\<close>, the message of the exception, and \<open>endpoint\<close>, the string
  \<open>/everything\<close>.
\<close>

theorem search_everything_error_dictionary:
  "(upstream w (length (sent w)) (search_everything_request (g c) a) = Raises e \<longrightarrow>
      fst (search_everything g c a w)
        = Inr (PyDict [(''error'', PyStr (str_exn e)), (''endpoint'', PyStr ''/everything'')])) \<and>
   (upstream w (length (sent w)) (search_everything_request (g c) a) = Returns r \<and>
    raise_for_status r = Some e \<longrightarrow>
      fst (search_everything g c a w)
        = Inr (PyDict [(''error'', PyStr (str_exn e)), (''endpoint'', PyStr ''/everything'')])) \<and>
   (upstream w (length (sent w)) (search_everything_request (g c) a) = Returns r \<and>
    raise_for_status r = None \<and> json_result r = Inl e \<longrightarrow>
      fst (search_everything g c a w)
        = Inr (PyDict [(''error'', PyStr (str_exn e)), (''endpoint'', PyStr ''/everything'')])) \<and>
   (fst (search_everything_try (g c) a w) = Inl e \<longrightarrow>
      fst (search_everything g c a w)
        = Inr (PyDict [(''error'', PyStr (str_exn e)), (''endpoint'', PyStr ''/everything'')]))"
proof (intro conjI impI)
  assume "upstream w (length (sent w)) (search_everything_request (g c) a) = Raises e"
  then show "fst (search_everything g c a w)
        = Inr (PyDict [(''error'', PyStr (str_exn e)), (''endpoint'', PyStr ''/everything'')])"
    by (simp add: search_everything_result)
next
  assume "upstream w (length (sent w)) (search_everything_request (g c) a) = Returns r \<and>
    raise_for_status r = Some e"
  then show "fst (search_everything g c a w)
        = Inr (PyDict [(''error'', PyStr (str_exn e)), (''endpoint'', PyStr ''/everything'')])"
    by (simp add: search_everything_result)
next
  assume "upstream w (length (sent w)) (search_everything_request (g c) a) = Returns r \<and>
    raise_for_status r = None \<and> json_result r = Inl e"
  then show "fst (search_everything g c a w)
        = Inr (PyDict [(''error'', PyStr (str_exn e)), (''endpoint'', PyStr ''/everything'')])"
    by (simp add: search_everything_result)
next
  assume "fst (search_everything_try (g c) a w) = Inl e"
  then show "fst (search_everything g c a w)
        = Inr (PyDict [(''error'', PyStr (str_exn e)), (''endpoint'', PyStr ''/everything'')])"
    by (cases "search_everything_try (g c) a w") (simp add: search_everything_def)
qed

theorem search_everything_error_dictionary_witness:
  "upstream (fresh_world upstream_html) (length (sent (fresh_world upstream_html)))
      (search_everything_request (key_of_context (Some ''secret'')) search_ai)
     = Returns \<lparr>status_code = 200, reason = ''OK'',
                response_url = ''https://newsapi.org/v2/everything'',
                json_result = Inl (Exception JSONDecodeError
                  ''Expecting value: line 1 column 1 (char 0)'')\<rparr> \<and>
   fst (search_everything key_of_context (Some ''secret'') search_ai (fresh_world upstream_html))
     = Inr (PyDict [(''error'', PyStr ''Expecting value: line 1 column 1 (char 0)''),
                    (''endpoint'', PyStr ''/everything'')])"
  using search_everything_error_dictionary
    [of "fresh_world upstream_html" key_of_context "Some ''secret''" search_ai _
        "\<lparr>status_code = 200, reason = ''OK'',
          response_url = ''https://newsapi.org/v2/everything'',
          json_result = Inl (Exception JSONDecodeError
            ''Expecting value: line 1 column 1 (char 0)'')\<rparr>"]
  by (simp add: fresh_world_simps upstream_html_def search_everything_request_def
      raise_for_status_def)

section \<open>Properties of start-up\<close>

lemma module_init_globals:
  "module_init py_int env = Inr g \<Longrightarrow>
     mcp g = mcp_tool search_everything_tool (FastMCP ''test-newsapi-mcp MCP Server'' ''0.0.0.0'') \<and>
     API_KEY g = getenv env ''TEST_NEWSAPI_MCP_API_KEY'' \<and>
     getenv env ''SERVER_ADDRESS'' = Some (SERVER_ADDRESS g) \<and> SERVER_ADDRESS g \<noteq> []"
  by (auto simp add: module_init_def split: sum.splits option.splits if_splits)

lemma module_init_example: "module_init int_of_port env_with_key = Inr globals_example"
  by (simp add: module_init_def int_of_port_def env_with_key_def globals_example_def
      getenv_def getenv_default_def upper_def upper_char_def)

text \<open>The comparison that decides the testing mode ignores the case of the letters:
  with \<open>D402_TESTING_MODE=TRUE\<close> and no facilitator URL the application is built.\<close>

lemma testing_mode_ignores_case: "testing_mode env_testing_upper"
  by code_simp

lemma create_app_in_testing_mode:
  "\<exists>app. create_app_with_middleware configs_of globals_example env_testing_upper = Inr app"
  by (simp add: create_app_with_middleware_def testing_mode_ignores_case Let_def)

text \<open>
  Claim C6. When \<open>SERVER_ADDRESS\<close> is absent from the environment, the import of the
  module ends in an exception, so no server object is created and the process does not
  start. When the port string is a number, the exception is the \<open>ValueError\<close> of line 58.
\<close>

theorem server_address_required:
  "getenv env ''SERVER_ADDRESS'' = None \<Longrightarrow>
     (\<exists>e. module_init py_int env = Inl e) \<and>
     (py_int (getenv_default env ''PORT'' ''8000'') = Inr port \<longrightarrow>
        module_init py_int env
          = Inl (Exception ValueError ''SERVER_ADDRESS required for payment protocol'')) \<and>
     (\<exists>e. main py_int ex env = Inl e)"
  by (auto simp add: module_init_def main_def split: sum.splits)

theorem server_address_required_witness:
  "getenv env_empty ''SERVER_ADDRESS'' = None \<and>
   int_of_port (getenv_default env_empty ''PORT'' ''8000'') = Inr 8000 \<and>
   module_init int_of_port env_empty
     = Inl (Exception ValueError ''SERVER_ADDRESS required for payment protocol'') \<and>
   (\<exists>e. main int_of_port configs_of env_empty = Inl e)"
proof -
  have absent: "getenv env_empty ''SERVER_ADDRESS'' = None"
    by (simp add: getenv_def env_empty_def)
  have port: "int_of_port (getenv_default env_empty ''PORT'' ''8000'') = Inr 8000"
    by (simp add: getenv_default_def env_empty_def int_of_port_def)
  from server_address_required [OF absent, of int_of_port 8000 configs_of] absent port
  show ?thesis by simp
qed

text \<open>
  Claim C8. When the testing mode is off and neither \<open>FACILITATOR_URL\<close> nor
  \<open>D402_FACILITATOR_URL\<close> is set, \<open>create_app_with_middleware\<close> raises the \<open>ValueError\<close> of
  line 248, and the process, whose import succeeded, ends with it: no server runs.
\<close>

theorem facilitator_required_outside_testing:
  "\<not> testing_mode env \<and> getenv env ''FACILITATOR_URL'' = None \<and>
   getenv env ''D402_FACILITATOR_URL'' = None \<Longrightarrow>
     create_app_with_middleware ex g env
       = Inl (Exception ValueError ''Set FACILITATOR_URL or enable D402_TESTING_MODE=true'') \<and>
     (module_init py_int env = Inr g \<longrightarrow>
        main py_int ex env
          = Inl (Exception ValueError ''Set FACILITATOR_URL or enable D402_TESTING_MODE=true'')) \<and>
     (\<exists>e. main py_int ex env = Inl e)"
  by (auto simp add: create_app_with_middleware_def main_def facilitator_url_def py_or_def
      Let_def split: sum.splits)

theorem facilitator_required_outside_testing_witness:
  "\<not> testing_mode env_with_key \<and> getenv env_with_key ''FACILITATOR_URL'' = None \<and>
   getenv env_with_key ''D402_FACILITATOR_URL'' = None \<and>
   module_init int_of_port env_with_key = Inr globals_example \<and>
   main int_of_port configs_of env_with_key
     = Inl (Exception ValueError ''Set FACILITATOR_URL or enable D402_TESTING_MODE=true'')"
proof -
  have hyp: "\<not> testing_mode env_with_key \<and> getenv env_with_key ''FACILITATOR_URL'' = None \<and>
      getenv env_with_key ''D402_FACILITATOR_URL'' = None"
    by (simp add: testing_mode_def getenv_def getenv_default_def env_with_key_def
        lower_def lower_char_def)
  from facilitator_required_outside_testing
         [OF hyp, of configs_of globals_example int_of_port]
       hyp module_init_example
  show ?thesis by simp
qed

section \<open>Properties of the gateway\<close>

lemma lookup_search_everything:
  "lookup (mcp_tool search_everything_tool (FastMCP t h)) ''search_everything''
     = Some search_everything_tool"
  by (simp add: lookup_def mcp_tool_def FastMCP_def search_everything_tool_def)

text \<open>
  Claim C5. For the server as the module builds it, a call of the tool
  \<open>search_everything\<close> that carries no API key and no payment proof the verification
  accepts is answered with payment required, nothing is sent upstream, and the price in
  the answer is the price declared on the tool: amount \<open>2000\<close> of the asset at address
  \<open>0x1c7D4B196Cb0C7B01d743Fbc6116a902379C7238\<close>.
\<close>

theorem payment_required_carries_declared_price:
  "module_init py_int env = Inr g \<and> call_tool c = ''search_everything'' \<and>
   call_api_key c = None \<and>
   (\<forall>pf. call_payment_proof c = Some pf
      \<longrightarrow> \<not> verify_payment col pf search_everything_price) \<Longrightarrow>
     gateway_shell col g now (Tool_call c) w = (Payment_required search_everything_price, w) \<and>
     amount search_everything_price = ''2000'' \<and>
     address (asset search_everything_price) = ''0x1c7D4B196Cb0C7B01d743Fbc6116a902379C7238''"
proof -
  assume h: "module_init py_int env = Inr g \<and> call_tool c = ''search_everything'' \<and>
   call_api_key c = None \<and>
   (\<forall>pf. call_payment_proof c = Some pf
      \<longrightarrow> \<not> verify_payment col pf search_everything_price)"
  then have look: "lookup (mcp g) (call_tool c) = Some search_everything_tool"
    using module_init_globals [of py_int env g] by (simp add: lookup_search_everything)
  have pr: "price search_everything_tool = search_everything_price"
    by (simp add: search_everything_tool_def)
  from h have "evaluate (verify_payment col) (API_KEY g) search_everything_tool c
      = Rejected search_everything_price"
    by (simp add: evaluate_def pr split: option.split)
  with look have "gateway_shell col g now (Tool_call c) w
      = (Payment_required search_everything_price, w)"
    by (simp add: gateway_shell_def)
  then show ?thesis by (simp add: search_everything_price_def)
qed

theorem payment_required_carries_declared_price_witness:
  "module_init int_of_port env_with_key = Inr globals_example \<and>
   call_tool call_without_credential = ''search_everything'' \<and>
   call_api_key call_without_credential = None \<and>
   call_payment_proof call_without_credential = None \<and>
   gateway_shell collaborators_example globals_example ''2026-01-01T00:00:00''
       (Tool_call call_without_credential) (fresh_world upstream_ok)
     = (Payment_required search_everything_price, fresh_world upstream_ok) \<and>
   call_api_key call_with_forged_proof = None \<and>
   call_payment_proof call_with_forged_proof = Some ''forged'' \<and>
   \<not> verify_payment collaborators_example ''forged'' search_everything_price \<and>
   gateway_shell collaborators_example globals_example ''2026-01-01T00:00:00''
       (Tool_call call_with_forged_proof) (fresh_world upstream_ok)
     = (Payment_required search_everything_price, fresh_world upstream_ok)"
proof -
  have forged: "\<not> verify_payment collaborators_example ''forged'' search_everything_price"
    by (simp add: collaborators_example_def search_everything_price_def)
  from payment_required_carries_declared_price
         [of int_of_port env_with_key globals_example call_without_credential
             collaborators_example "''2026-01-01T00:00:00''" "fresh_world upstream_ok"]
       payment_required_carries_declared_price
         [of int_of_port env_with_key globals_example call_with_forged_proof
             collaborators_example "''2026-01-01T00:00:00''" "fresh_world upstream_ok"]
       forged
  show ?thesis
    by (simp add: module_init_example call_without_credential_def call_with_forged_proof_def)
qed

text \<open>
  Claim C7. A call of the liveness route is answered by \<open>health_check\<close> whatever key or
  payment proof it carries, without passing the payment gate and without any outbound
  request. The handler does not read its request: the body is the mapping with exactly
  the fields \<open>status\<close>, which is \<open>healthy\<close>, \<open>service\<close> and \<open>timestamp\<close>.
\<close>

theorem liveness_healthy_and_ungated:
  "gateway_shell col g now (Liveness_call k pf) w
     = (Liveness_result
          (JSONResponse (PyDict [(''status'', PyStr ''healthy''),
                                 (''service'', PyStr ''test-newsapi-mcp-mcp-server''),
                                 (''timestamp'', PyStr now)])), w) \<and>
   health_check request now
     = JSONResponse (PyDict [(''status'', PyStr ''healthy''),
                             (''service'', PyStr ''test-newsapi-mcp-mcp-server''),
                             (''timestamp'', PyStr now)])"
  by (simp add: gateway_shell_def health_check_def)

end
